theory Spec2Isabelle
  imports Main
begin

section \<open>JavaScript values and helpers\<close>

text \<open>
  Values exchanged with the server are JSON. A JavaScript object is kept as the list of its
  own properties in insertion order; \<open>undefined\<close> is \<open>None\<close> of an option type. Numbers are
  restricted to integers. Text is \<open>string\<close>.
\<close>

datatype json =
    JNull
  | JBool bool
  | JNum int
  | JStr string
  | JArr "json list"
  | JObj "(string \<times> json) list"

text \<open>A thrown \<open>Error\<close> object (TypeError, SyntaxError, the AbortError DOMException).\<close>

record exn =
  name :: string
  msg :: string

text \<open>\<open>o[k]\<close> on an object's own properties, and \<open>{...o, [k]: v}\<close>: an existing key keeps its
  place, a new key goes last.\<close>

fun obj_get :: "(string \<times> 'v) list \<Rightarrow> string \<Rightarrow> 'v option" where
  "obj_get [] k = None"
| "obj_get ((k', v) # kvs) k = (if k' = k then Some v else obj_get kvs k)"

fun obj_set :: "(string \<times> 'v) list \<Rightarrow> string \<Rightarrow> 'v \<Rightarrow> (string \<times> 'v) list" where
  "obj_set [] k v = [(k, v)]"
| "obj_set ((k', v') # kvs) k v =
     (if k' = k then (k, v) # kvs else (k', v') # obj_set kvs k v)"

text \<open>\<open>const { [k]: _, ...rest } = o\<close>.\<close>

definition obj_rest :: "(string \<times> 'v) list \<Rightarrow> string \<Rightarrow> (string \<times> 'v) list" where
  "obj_rest kvs k = filter (\<lambda>kv. fst kv \<noteq> k) kvs"

text \<open>
  \<open>Object.entries\<close> lists the keys that are array indices (canonical decimal numerals below
  \<open>2^32 - 1\<close>) first, in ascending numeric order, then every other key in insertion order.
\<close>

definition is_digit :: "char \<Rightarrow> bool" where
  "is_digit c = (48 \<le> (of_char c :: nat) \<and> (of_char c :: nat) \<le> 57)"

definition index_value :: "string \<Rightarrow> nat" where
  "index_value s = foldl (\<lambda>n c. 10 * n + ((of_char c :: nat) - 48)) 0 s"

definition is_array_index :: "string \<Rightarrow> bool" where
  "is_array_index s =
     (s \<noteq> [] \<and> list_all is_digit s \<and> (s = ''0'' \<or> hd s \<noteq> CHR ''0'')
      \<and> index_value s < 2 ^ 32 - 1)"

definition Object_entries :: "(string \<times> 'v) list \<Rightarrow> (string \<times> 'v) list" where
  "Object_entries kvs =
     sort_key (\<lambda>kv. index_value (fst kv)) (filter (\<lambda>kv. is_array_index (fst kv)) kvs)
     @ filter (\<lambda>kv. \<not> is_array_index (fst kv)) kvs"

text \<open>\<open>Array.prototype.join\<close> on an array of strings.\<close>

fun join :: "string \<Rightarrow> string list \<Rightarrow> string" where
  "join sep [] = []"
| "join sep [x] = x"
| "join sep (x # y # ys) = x @ sep @ join sep (y # ys)"

text \<open>
  Property read \<open>v.k\<close> on a value other than \<open>null\<close> and \<open>undefined\<close> (on those the read
  throws a TypeError, which each caller below writes out). Only own properties of objects are
  looked up: none of the keys read in this development is a built-in property of strings,
  arrays, numbers or \<open>Object.prototype\<close>.
\<close>

fun get_prop :: "json \<Rightarrow> string \<Rightarrow> json option" where
  "get_prop (JObj kvs) k = obj_get kvs k"
| "get_prop _ k = None"

text \<open>Truthiness, and \<open>a || d\<close> where \<open>a\<close> may be \<open>undefined\<close>.\<close>

fun truthy :: "json \<Rightarrow> bool" where
  "truthy JNull = False"
| "truthy (JBool b) = b"
| "truthy (JNum n) = (n \<noteq> 0)"
| "truthy (JStr s) = (s \<noteq> [])"
| "truthy (JArr _) = True"
| "truthy (JObj _) = True"

definition or_default :: "json option \<Rightarrow> json \<Rightarrow> json" where
  "or_default a d = (case a of None \<Rightarrow> d | Some v \<Rightarrow> if truthy v then v else d)"

text \<open>String conversion, as \<open>+=\<close> on a string applies it to its right operand. Integers are
  printed in decimal digits, as the program does below \<open>10^21\<close> in magnitude.\<close>

fun digits :: "nat \<Rightarrow> string" where
  "digits n = (if n < 10 then [char_of (48 + n)]
               else digits (n div 10) @ [char_of (48 + n mod 10)])"

fun String_js :: "json \<Rightarrow> string" where
  "String_js JNull = ''null''"
| "String_js (JBool b) = (if b then ''true'' else ''false'')"
| "String_js (JNum n) = (if n < 0 then ''-'' @ digits (nat (- n)) else digits (nat n))"
| "String_js (JStr s) = s"
| "String_js (JArr xs) =
     join '','' (map (\<lambda>x. if x = JNull then [] else String_js x) xs)"
| "String_js (JObj kvs) = ''[object Object]''"

definition String_opt :: "json option \<Rightarrow> string" where
  "String_opt a = (case a of None \<Rightarrow> ''undefined'' | Some v \<Rightarrow> String_js v)"

text \<open>\<open>split\<close> of a string at the line feed character: the pieces between line feeds; the
  empty string gives one empty piece.\<close>

fun split_nl :: "string \<Rightarrow> string list" where
  "split_nl [] = [[]]"
| "split_nl (c # cs) =
     (if c = CHR 0x0A then [] # split_nl cs
      else (case split_nl cs of [] \<Rightarrow> [[c]] | l # ls \<Rightarrow> (c # l) # ls))"

section \<open>Instant-search controller (useInstantSearch)\<close>

record AACSearchError =
  message :: json
  code :: "json option"
  statusCode :: "nat option"
  details :: "json option"

record SearchParams =
  q :: string
  collection :: string
  query_by :: string
  filter_by :: "string option"
  facet_by :: "string option"
  sort_by :: "string option"
  page :: nat
  per_page :: nat

text \<open>A value caught by a \<open>catch\<close> clause: an error object built by the request executor,
  or an exception of the platform.\<close>

datatype thrown = Normalized AACSearchError | Raw exn

text \<open>The options of the hook; \<open>has_onSearch\<close> and \<open>has_onError\<close> say whether the callback
  was supplied.\<close>

record UseInstantSearchOptions =
  opt_collection :: string
  searchFields :: "string list"
  facetFields :: "string list option"
  resultsPerPage :: nat
  defaultFilters :: "(string \<times> string list) list"
  defaultSortBy :: "string option"
  has_onSearch :: bool
  has_onError :: bool

subsection \<open>Filter compilation in performSearch\<close>

text \<open>
  The body of the \<open>forEach\<close> over \<open>Object.entries(filters)\<close>: a field with at least one value
  pushes \<open>(field:=v1 || field:=v2 ...)\<close> onto \<open>filterParts\<close>.
\<close>

definition filterParts_push :: "string list \<Rightarrow> string \<times> string list \<Rightarrow> string list" where
  "filterParts_push filterParts entry =
     (case entry of (field, values) \<Rightarrow>
        if length values > 0
        then (let filterValues = join '' || '' (map (\<lambda>v. field @ '':='' @ v) values)
              in filterParts @ [''('' @ filterValues @ '')''])
        else filterParts)"

definition build_filter_by :: "(string \<times> string list) list \<Rightarrow> string option" where
  "build_filter_by fs =
     (let filterParts = foldl filterParts_push [] (Object_entries fs)
      in if length filterParts > 0 then Some (join '' && '' filterParts) else None)"

definition build_searchParams ::
  "UseInstantSearchOptions \<Rightarrow> (string \<times> string list) list \<Rightarrow> string option \<Rightarrow>
   string \<Rightarrow> nat \<Rightarrow> SearchParams" where
  "build_searchParams opts fs sortBy searchQuery currentPage =
     \<lparr> q = (if searchQuery = [] then ''*'' else searchQuery),
       collection = opt_collection opts,
       query_by = join '','' (searchFields opts),
       filter_by = build_filter_by fs,
       facet_by = map_option (join '','') (facetFields opts),
       sort_by = sortBy,
       page = currentPage,
       per_page = resultsPerPage opts \<rparr>"

text \<open>The query compilation as the specification words it: one OR-group per field with a
  non-empty value list, the groups joined with \<open>&&\<close>, no expression when there is no group.\<close>

definition or_group :: "string \<times> string list \<Rightarrow> string" where
  "or_group entry = ''('' @ join '' || '' (map (\<lambda>v. fst entry @ '':='' @ v) (snd entry)) @ '')''"

definition spec_filter_expression :: "(string \<times> string list) list \<Rightarrow> string option" where
  "spec_filter_expression fs =
     (let groups = map or_group (filter (\<lambda>entry. snd entry \<noteq> []) (Object_entries fs))
      in if groups = [] then None else Some (join '' && '' groups))"

subsection \<open>Controller state and filter mutation\<close>

text \<open>
  The state cells of the hook. \<open>abortControllerRef\<close> holds the identity of the
  AbortController created by the latest \<open>performSearch\<close>; \<open>aborted\<close> lists the controllers
  whose \<open>abort()\<close> has been called; \<open>inflight\<close> lists the pending \<open>client.search\<close> calls.
\<close>

record search_call =
  call_id :: nat
  call_params :: SearchParams
  call_query :: string

record hook_state =
  query :: string
  results :: "json option"
  loading :: bool
  error :: "AACSearchError option"
  cur_page :: nat
  filters :: "(string \<times> string list) list"
  sortBy :: "string option"
  abortControllerRef :: "nat option"
  aborted :: "nat list"
  next_id :: nat
  inflight :: "search_call list"
  onSearch_calls :: "(string \<times> json) list"
  onError_calls :: "AACSearchError list"

text \<open>
  \<open>addFilter\<close> and \<open>removeFilter\<close> read \<open>prev[field]\<close> among the own keys of the filters. For
  a field named like an inherited member of \<open>Object.prototype\<close> (\<open>constructor\<close>, \<open>toString\<close>)
  that is not an own key, the read in the program finds the inherited member and the call
  throws; such field names are outside this model.
\<close>

definition addFilter :: "string \<Rightarrow> string \<Rightarrow> hook_state \<Rightarrow> hook_state" where
  "addFilter field v st =
     (let prev = filters st;
          currentValues = (case obj_get prev field of Some vs \<Rightarrow> vs | None \<Rightarrow> [])
      in st\<lparr> filters := (if v \<notin> set currentValues
                          then obj_set prev field (currentValues @ [v])
                          else prev),
              cur_page := 1 \<rparr>)"

definition removeFilter :: "string \<Rightarrow> string \<Rightarrow> hook_state \<Rightarrow> hook_state" where
  "removeFilter field v st =
     (let prev = filters st;
          currentValues = (case obj_get prev field of Some vs \<Rightarrow> vs | None \<Rightarrow> []);
          newValues = filter (\<lambda>x. x \<noteq> v) currentValues
      in st\<lparr> filters := (if length newValues = 0
                          then obj_rest prev field
                          else obj_set prev field newValues),
              cur_page := 1 \<rparr>)"

definition clearFilters :: "hook_state \<Rightarrow> hook_state" where
  "clearFilters st = st\<lparr> filters := [], cur_page := 1 \<rparr>"

text \<open>The state of a freshly mounted hook.\<close>

definition initial_hook :: "UseInstantSearchOptions \<Rightarrow> hook_state" where
  "initial_hook opts =
     \<lparr> query = [], results = None, loading = False, error = None, cur_page = 1,
       filters = defaultFilters opts, sortBy = defaultSortBy opts,
       abortControllerRef = None, aborted = [], next_id = 0, inflight = [],
       onSearch_calls = [], onError_calls = [] \<rparr>"

subsection \<open>performSearch\<close>

text \<open>
  \<open>performSearch\<close> runs up to its \<open>await\<close>: it calls \<open>abort()\<close> on the controller held in
  \<open>abortControllerRef\<close>, stores a new controller, sets the loading flag, clears the error,
  compiles the parameters and calls \<open>client.search(searchParams)\<close>. The call receives the
  parameters only; the executor creates a controller of its own for its deadline.
\<close>

definition performSearch_begin ::
  "UseInstantSearchOptions \<Rightarrow> string \<Rightarrow> nat \<Rightarrow> hook_state \<Rightarrow> hook_state" where
  "performSearch_begin opts searchQuery currentPage st =
     (let st1 = (case abortControllerRef st of
                   Some c \<Rightarrow> st\<lparr> aborted := aborted st @ [c] \<rparr>
                 | None \<Rightarrow> st);
          ctl = next_id st1;
          st2 = st1\<lparr> abortControllerRef := Some ctl, next_id := ctl + 1,
                     loading := True, error := None \<rparr>;
          searchParams = build_searchParams opts (filters st) (sortBy st) searchQuery currentPage
      in st2\<lparr> inflight := inflight st2 @
                [\<lparr> call_id = ctl, call_params = searchParams, call_query = searchQuery \<rparr>] \<rparr>)"

text \<open>The \<open>catch\<close> clause: \<open>err.name\<close>, and the error object built from \<open>err\<close>.\<close>

definition thrown_name :: "thrown \<Rightarrow> string option" where
  "thrown_name err = (case err of Normalized e \<Rightarrow> None | Raw x \<Rightarrow> Some (name x))"

definition searchError_of :: "thrown \<Rightarrow> AACSearchError" where
  "searchError_of err =
     (case err of
        Normalized e \<Rightarrow>
          \<lparr> message = or_default (Some (message e)) (JStr ''Search failed''),
            code = code e, statusCode = statusCode e, details = details e \<rparr>
      | Raw x \<Rightarrow>
          \<lparr> message = or_default (Some (JStr (msg x))) (JStr ''Search failed''),
            code = None, statusCode = None, details = None \<rparr>)"

text \<open>
  The rest of \<open>performSearch\<close>, run when the awaited call \<open>cid\<close> settles with \<open>outcome\<close>:
  the statements after the \<open>await\<close>, or the \<open>catch\<close> clause, then the \<open>finally\<close> clause.
\<close>

definition performSearch_settle ::
  "UseInstantSearchOptions \<Rightarrow> nat \<Rightarrow> thrown + json \<Rightarrow> hook_state \<Rightarrow> hook_state" where
  "performSearch_settle opts cid outcome st =
     (case filter (\<lambda>c. call_id c = cid) (inflight st) of
        [] \<Rightarrow> st
      | c # _ \<Rightarrow>
          (let st1 = st\<lparr> inflight := filter (\<lambda>c. call_id c \<noteq> cid) (inflight st) \<rparr>;
               st2 = (case outcome of
                        Inr searchResults \<Rightarrow>
                          st1\<lparr> results := Some searchResults,
                               onSearch_calls :=
                                 (if has_onSearch opts \<and> call_query c \<noteq> []
                                  then onSearch_calls st1 @ [(call_query c, searchResults)]
                                  else onSearch_calls st1) \<rparr>
                      | Inl err \<Rightarrow>
                          (if thrown_name err \<noteq> Some ''AbortError''
                           then st1\<lparr> error := Some (searchError_of err),
                                     onError_calls :=
                                       (if has_onError opts
                                        then onError_calls st1 @ [searchError_of err]
                                        else onError_calls st1) \<rparr>
                           else st1))
           in st2\<lparr> loading := False, abortControllerRef := None \<rparr>))"

section \<open>Request executor (AACSearchClient.request)\<close>

record AACSearchConfig =
  cfg_apiKey :: string
  cfg_endpoint :: "string option"
  cfg_tenant :: "string option"
  cfg_timeout :: "nat option"

record client =
  apiKey :: string
  endpoint :: string
  tenant :: "string option"
  timeout :: nat

text \<open>The constructor: an absent or empty endpoint and an absent or zero timeout take the
  defaults.\<close>

definition new_client :: "AACSearchConfig \<Rightarrow> client" where
  "new_client config =
     \<lparr> apiKey = cfg_apiKey config,
       endpoint = (case cfg_endpoint config of
                     None \<Rightarrow> ''https://api.aacsearch.com''
                   | Some e \<Rightarrow> if e = [] then ''https://api.aacsearch.com'' else e),
       tenant = cfg_tenant config,
       timeout = (case cfg_timeout config of
                    None \<Rightarrow> 30000
                  | Some t \<Rightarrow> if t = 0 then 30000 else t) \<rparr>"

text \<open>The text that \<open>JSON.stringify\<close> makes of a value is kept symbolic.\<close>

datatype 'a wire = JSON_stringify 'a

record 'a RequestInit =
  req_method :: "string option"
  headers :: "(string \<times> string) list"
  body :: "'a wire option"

text \<open>
  What the server side does. A response carries what its \<open>json()\<close> settles to. A transport
  either settles the \<open>fetch\<close> at a time (milliseconds after the call) or leaves it pending.
\<close>

record response =
  ok :: bool
  status :: nat
  statusText :: string
  json_body :: "exn + json"

datatype fetch_outcome = Resolves response | Rejects exn

datatype transport = Settles nat fetch_outcome | Pending

text \<open>
  The executor's own resources during one call: the arguments handed to \<open>fetch\<close>, whether the
  timer set by \<open>setTimeout\<close> is still pending, and whether the controller has been aborted.
\<close>

record 'a exec_state =
  fetch_url :: string
  fetch_init :: "'a RequestInit"
  timer_delay :: nat
  timer_armed :: bool
  signal_aborted :: bool

definition clearTimeout :: "'a exec_state \<Rightarrow> 'a exec_state" where
  "clearTimeout s = s\<lparr> timer_armed := False \<rparr>"

text \<open>The timer callback \<open>() => controller.abort()\<close>; a cleared timer does not fire.\<close>

definition timer_fires :: "'a exec_state \<Rightarrow> 'a exec_state" where
  "timer_fires s =
     (if timer_armed s then s\<lparr> timer_armed := False, signal_aborted := True \<rparr> else s)"

definition AbortError :: exn where
  "AbortError = \<lparr> name = ''AbortError'', msg = ''The operation was aborted.'' \<rparr>"

text \<open>
  \<open>await fetch(url, {..., signal})\<close>: a transport that settles before the timer's delay gives
  its outcome; otherwise the timer fires first, and the aborted signal makes \<open>fetch\<close> reject
  with an AbortError.
\<close>

definition await_fetch :: "transport \<Rightarrow> 'a exec_state \<Rightarrow> fetch_outcome \<times> 'a exec_state" where
  "await_fetch tr s =
     (case tr of
        Settles t out \<Rightarrow>
          if t < timer_delay s then (out, s) else (Rejects AbortError, timer_fires s)
      | Pending \<Rightarrow> (Rejects AbortError, timer_fires s))"

text \<open>
  The error object of a response that is not ok. The inner \<open>try\<close> reads the body as JSON; a
  body that does not parse, and a body that is \<open>null\<close> (the property read throws), leave the
  default message.
\<close>

definition error_of_response :: "response \<Rightarrow> AACSearchError" where
  "error_of_response r =
     (let error0 = \<lparr> message = JStr (''API request failed: '' @ statusText r),
                      code = None, statusCode = Some (status r), details = None \<rparr>
      in case json_body r of
           Inl e \<Rightarrow> error0
         | Inr errorData \<Rightarrow>
             if errorData = JNull then error0
             else error0\<lparr> message := or_default (get_prop errorData ''message'') (message error0),
                          code := get_prop errorData ''code'',
                          details := get_prop errorData ''details'' \<rparr>)"

definition timeout_error :: AACSearchError where
  "timeout_error =
     \<lparr> message = JStr ''Request timeout'', code = Some (JStr ''TIMEOUT''),
       statusCode = None, details = None \<rparr>"

text \<open>The outer \<open>catch\<close> clause.\<close>

definition request_catch :: "thrown \<Rightarrow> 'a exec_state \<Rightarrow> thrown \<times> 'a exec_state" where
  "request_catch err s =
     (let s1 = clearTimeout s
      in if thrown_name err = Some ''AbortError'' then (Normalized timeout_error, s1)
         else (err, s1))"

definition request_headers :: "client \<Rightarrow> 'a RequestInit \<Rightarrow> (string \<times> string) list" where
  "request_headers c options =
     (let h = foldl (\<lambda>acc kv. obj_set acc (fst kv) (snd kv))
                [(''Content-Type'', ''application/json''), (''X-API-Key'', apiKey c)]
                (Object_entries (headers options))
      in case tenant c of
           None \<Rightarrow> h
         | Some t \<Rightarrow> if t = [] then h else obj_set h ''X-Tenant-ID'' t)"

definition request ::
  "client \<Rightarrow> string \<Rightarrow> 'a RequestInit \<Rightarrow> transport \<Rightarrow> (thrown + json) \<times> 'a exec_state" where
  "request c path options tr =
     (let url = endpoint c @ path;
          s0 = \<lparr> fetch_url = url,
                 fetch_init = options\<lparr> headers := request_headers c options \<rparr>,
                 timer_delay = timeout c, timer_armed = True, signal_aborted = False \<rparr>
      in case await_fetch tr s0 of
           (Rejects e, s1) \<Rightarrow>
             (case request_catch (Raw e) s1 of (err, s2) \<Rightarrow> (Inl err, s2))
         | (Resolves r, s1) \<Rightarrow>
             (let s2 = clearTimeout s1
              in if \<not> ok r
                 then (case request_catch (Normalized (error_of_response r)) s2 of
                         (err, s3) \<Rightarrow> (Inl err, s3))
                 else (case json_body r of
                         Inr v \<Rightarrow> (Inr v, s2)
                       | Inl e \<Rightarrow>
                           (case request_catch (Raw e) s2 of (err, s3) \<Rightarrow> (Inl err, s3)))))"

section \<open>Streaming parser (AACSearchClientExtended.streamConversationalSearch)\<close>


text \<open>The sink: each field says whether the callback was supplied; the calls made are logged.\<close>

record StreamingOptions =
  onChunk :: bool
  onComplete :: bool
  onError :: bool

datatype sink_event = OnChunk "json option" | OnComplete | OnError exn

text \<open>The variables of the read loop, and the calls made on the sink so far.\<close>

record parser_state =
  fullAnswer :: string
  result :: "json option"
  sink :: "sink_event list"

definition TypeError :: exn where
  "TypeError = \<lparr> name = ''TypeError'', msg = ''Cannot read properties of null or undefined'' \<rparr>"

text \<open>
  The body of the loop over the lines of one chunk. \<open>JSON_parse\<close> stands for \<open>JSON.parse\<close>:
  it gives the parsed value or the SyntaxError it throws. A line is looked at only when it
  starts with \<open>data: \<close>; the rest of the line is parsed as it stands.
\<close>

definition process_line ::
  "(string \<Rightarrow> exn + json) \<Rightarrow> StreamingOptions \<Rightarrow> string \<Rightarrow> parser_state
   \<Rightarrow> exn \<times> parser_state + parser_state" where
  "process_line JSON_parse options line ps =
     (if take 6 line = ''data: ''
      then (case JSON_parse (drop 6 line) of
              Inl e \<Rightarrow> Inl (e, ps)
            | Inr data \<Rightarrow>
                if data = JNull then Inl (TypeError, ps)
                else if get_prop data ''type'' = Some (JStr ''token'')
                then Inr (ps\<lparr> fullAnswer := fullAnswer ps @ String_opt (get_prop data ''content''),
                               sink := sink ps @ (if onChunk options
                                                  then [OnChunk (get_prop data ''content'')]
                                                  else []) \<rparr>)
                else if get_prop data ''type'' = Some (JStr ''result'')
                then Inr (ps\<lparr> result := get_prop data ''data'' \<rparr>)
                else Inr ps)
      else Inr ps)"

fun process_lines ::
  "(string \<Rightarrow> exn + json) \<Rightarrow> StreamingOptions \<Rightarrow> string list \<Rightarrow> parser_state
   \<Rightarrow> exn \<times> parser_state + parser_state" where
  "process_lines JSON_parse options [] ps = Inr ps"
| "process_lines JSON_parse options (line # lines) ps =
     (case process_line JSON_parse options line ps of
        Inl failure \<Rightarrow> Inl failure
      | Inr ps1 \<Rightarrow> process_lines JSON_parse options lines ps1)"

text \<open>
  The \<open>while (true)\<close> loop over the reads of a stream that ends. A read gives the text that
  the streaming \<open>TextDecoder\<close> makes of the bytes read; the decoder keeps an incomplete
  multi-byte sequence for the next read, so the texts of the reads concatenate to the text of
  the whole body. Each chunk is split into lines and its lines are processed before the next
  read; nothing is carried over from one chunk to the next.
\<close>

fun read_loop ::
  "(string \<Rightarrow> exn + json) \<Rightarrow> StreamingOptions \<Rightarrow> string list \<Rightarrow> parser_state
   \<Rightarrow> exn \<times> parser_state + parser_state" where
  "read_loop JSON_parse options [] ps = Inr ps"
| "read_loop JSON_parse options (chunk # chunks) ps =
     (case process_lines JSON_parse options (split_nl chunk) ps of
        Inl failure \<Rightarrow> Inl failure
      | Inr ps1 \<Rightarrow> read_loop JSON_parse options chunks ps1)"

text \<open>How the stream ends: \<open>done\<close>, or a read that rejects.\<close>

datatype stream_end = Done | ReadFails exn

text \<open>What the streaming endpoint does: the \<open>fetch\<close> rejects, the response has no body, or
  the body delivers chunks of text and then ends.\<close>

datatype stream_response = StreamRejects exn | NoBody | Body "string list" stream_end

text \<open>The \<open>catch\<close> clause of the parser: \<open>onError\<close> is told, and the error is thrown again.\<close>

definition stream_catch ::
  "StreamingOptions \<Rightarrow> exn \<times> parser_state \<Rightarrow> (thrown + json) \<times> sink_event list" where
  "stream_catch options failure =
     (case failure of (e, ps) \<Rightarrow>
        (Inl (Raw e), sink ps @ (if onError options then [OnError e] else [])))"

text \<open>After the loop: \<open>onComplete\<close>, then the returned object. Reading a property of
  \<open>result\<close> throws when a \<open>result\<close> record left it \<open>null\<close> or \<open>undefined\<close>.\<close>

definition stream_finish ::
  "StreamingOptions \<Rightarrow> parser_state \<Rightarrow> (thrown + json) \<times> sink_event list" where
  "stream_finish options ps =
     (let ps1 = ps\<lparr> sink := sink ps @ (if onComplete options then [OnComplete] else []) \<rparr>
      in case result ps1 of
           None \<Rightarrow> stream_catch options (TypeError, ps1)
         | Some r \<Rightarrow>
             if r = JNull then stream_catch options (TypeError, ps1)
             else (Inr (JObj
                     [(''conversation_id'', or_default (get_prop r ''conversation_id'') (JStr [])),
                      (''answer'', JStr (fullAnswer ps1)),
                      (''sources'', or_default (get_prop r ''sources'')
                                      (JObj [(''hits'', JArr []), (''found'', JNum 0)])),
                      (''suggested_questions'',
                         or_default (get_prop r ''suggested_questions'') (JArr []))]),
                   sink ps1))"

definition streamConversationalSearch ::
  "(string \<Rightarrow> exn + json) \<Rightarrow> StreamingOptions \<Rightarrow> stream_response
   \<Rightarrow> (thrown + json) \<times> sink_event list" where
  "streamConversationalSearch JSON_parse options resp =
     (case resp of
        StreamRejects e \<Rightarrow> (Inl (Raw e), [])
      | NoBody \<Rightarrow> (Inl (Raw \<lparr> name = ''Error'', msg = ''Streaming not supported'' \<rparr>), [])
      | Body chunks ending \<Rightarrow>
          (let ps0 = \<lparr> fullAnswer = [], result = Some (JObj []), sink = [] \<rparr>
           in case read_loop JSON_parse options chunks ps0 of
                Inl failure \<Rightarrow> stream_catch options failure
              | Inr ps1 \<Rightarrow>
                  (case ending of
                     ReadFails e \<Rightarrow> stream_catch options (e, ps1)
                   | Done \<Rightarrow> stream_finish options ps1)))"

text \<open>The answer of a stream, when the parser returns one.\<close>

definition answer_of :: "(thrown + json) \<times> sink_event list \<Rightarrow> string option" where
  "answer_of out =
     (case fst out of
        Inl err \<Rightarrow> None
      | Inr v \<Rightarrow> (case get_prop v ''answer'' of Some (JStr a) \<Rightarrow> Some a | _ \<Rightarrow> None))"

section \<open>Conversational search (AACSearchClientExtended.conversationalSearch)\<close>



section \<open>WebSocket session manager (connectWebSocket, useRealtime)\<close>

text \<open>
  The sockets created so far are numbered in creation order, each with its ready state.
  \<open>ws\<close> is the field \<open>this.ws\<close>. \<open>timers\<close> holds the delays of the reconnect timers still
  pending and \<open>setTimeout_log\<close> every delay handed to \<open>setTimeout\<close>. \<open>sent\<close> logs the frames
  sent (the value given to \<open>JSON.stringify\<close>) with the socket they went to. \<open>connected\<close>,
  \<open>updates\<close> and \<open>subscribedCollections\<close> are the cells of the \<open>useRealtime\<close> hook. The URL of
  the socket plays no part below and is left out.
\<close>

datatype ws_status = CONNECTING | OPEN | CLOSING | CLOSED

record RealtimeUpdate =
  upd_type :: "json option"
  upd_collection :: "json option"
  upd_document :: "json option"

record ws_state =
  ws :: "nat option"
  wsReconnectAttempts :: nat
  maxReconnectAttempts :: nat
  sockets :: "ws_status list"
  timers :: "nat list"
  setTimeout_log :: "nat list"
  sent :: "(nat \<times> json) list"
  connected :: bool
  updates :: "RealtimeUpdate list"
  subscribedCollections :: "string list"

definition initial_ws :: ws_state where
  "initial_ws =
     \<lparr> ws = None, wsReconnectAttempts = 0, maxReconnectAttempts = 5, sockets = [],
       timers = [], setTimeout_log = [], sent = [], connected = False, updates = [],
       subscribedCollections = [] \<rparr>"

text \<open>\<open>this.ws = new WebSocket(wsUrl)\<close>, with the four handlers installed on the new socket. A
  socket held before is neither closed nor stripped of its handlers.\<close>

definition connectWebSocket :: "ws_state \<Rightarrow> ws_state" where
  "connectWebSocket st =
     st\<lparr> ws := Some (length (sockets st)), sockets := sockets st @ [CONNECTING] \<rparr>"

text \<open>\<open>send\<close> on socket \<open>j\<close>: it throws while the socket is connecting (\<open>None\<close>), transmits on
  an open socket, and drops the frame on a closing or closed one.\<close>

definition ws_send :: "nat \<Rightarrow> json \<Rightarrow> ws_state \<Rightarrow> ws_state option" where
  "ws_send j frame st =
     (if j < length (sockets st) \<and> sockets st ! j = CONNECTING then None
      else if j < length (sockets st) \<and> sockets st ! j = OPEN
      then Some (st\<lparr> sent := sent st @ [(j, frame)] \<rparr>)
      else Some st)"

definition onopen :: "client \<Rightarrow> ws_state \<Rightarrow> ws_state" where
  "onopen c st =
     (let st1 = st\<lparr> wsReconnectAttempts := 0 \<rparr>
      in case ws st1 of
           None \<Rightarrow> st1
         | Some j \<Rightarrow>
             (case ws_send j (JObj [(''type'', JStr ''auth''), (''api_key'', JStr (apiKey c))]) st1 of
                None \<Rightarrow> st1
              | Some st2 \<Rightarrow> st2))"

text \<open>The message callback that \<open>useRealtime.connect\<close> passes; \<open>None\<close> when reading
  \<open>data.type\<close> throws.\<close>

definition hook_onMessage :: "json \<Rightarrow> ws_state \<Rightarrow> ws_state option" where
  "hook_onMessage data st =
     (if data = JNull then None
      else if get_prop data ''type'' = Some (JStr ''connected'')
      then Some (st\<lparr> connected := True \<rparr>)
      else if get_prop data ''type'' = Some (JStr ''update'')
      then Some (st\<lparr> updates := updates st @
                     [\<lparr> upd_type = get_prop data ''action'',
                        upd_collection = get_prop data ''collection'',
                        upd_document = get_prop data ''document'' \<rparr>] \<rparr>)
      else Some st)"

text \<open>\<open>onmessage\<close>: a frame that does not parse, and a callback that throws, are logged and
  dropped.\<close>

definition onmessage :: "(string \<Rightarrow> exn + json) \<Rightarrow> string \<Rightarrow> ws_state \<Rightarrow> ws_state" where
  "onmessage JSON_parse text st =
     (case JSON_parse text of
        Inl e \<Rightarrow> st
      | Inr data \<Rightarrow> (case hook_onMessage data st of None \<Rightarrow> st | Some st1 \<Rightarrow> st1))"

text \<open>\<open>onerror\<close> calls the error callback of the hook, which clears \<open>connected\<close>.\<close>

definition onerror :: "ws_state \<Rightarrow> ws_state" where
  "onerror st = st\<lparr> connected := False \<rparr>"

definition onclose :: "ws_state \<Rightarrow> ws_state" where
  "onclose st =
     (if wsReconnectAttempts st < maxReconnectAttempts st
      then (let st1 = st\<lparr> wsReconnectAttempts := wsReconnectAttempts st + 1 \<rparr>;
                delay = min (1000 * 2 ^ wsReconnectAttempts st1) 30000
            in st1\<lparr> timers := timers st1 @ [delay],
                    setTimeout_log := setTimeout_log st1 @ [delay] \<rparr>)
      else st)"

text \<open>\<open>disconnectWebSocket\<close>: \<open>close()\<close> on the socket held, which starts the closing of a
  connecting or open socket, and \<open>this.ws = null\<close>.\<close>

definition disconnectWebSocket :: "ws_state \<Rightarrow> ws_state" where
  "disconnectWebSocket st =
     (case ws st of
        None \<Rightarrow> st
      | Some j \<Rightarrow>
          st\<lparr> sockets := (if j < length (sockets st) \<and> sockets st ! j \<noteq> CLOSED
                           then (sockets st)[j := CLOSING] else sockets st),
              ws := None \<rparr>)"

text \<open>\<open>useRealtime.disconnect\<close>.\<close>

definition disconnect :: "ws_state \<Rightarrow> ws_state" where
  "disconnect st = (disconnectWebSocket st)\<lparr> connected := False, subscribedCollections := [] \<rparr>"

text \<open>\<open>subscribeToCollection\<close> throws (\<open>None\<close>) without a socket; \<open>useRealtime.subscribe\<close>
  records the collection after the frame was sent.\<close>

definition subscribeToCollection :: "string \<Rightarrow> ws_state \<Rightarrow> ws_state option" where
  "subscribeToCollection coll st =
     (case ws st of
        None \<Rightarrow> None
      | Some j \<Rightarrow> ws_send j (JObj [(''type'', JStr ''subscribe''), (''collection'', JStr coll)]) st)"

definition subscribe :: "string \<Rightarrow> ws_state \<Rightarrow> ws_state" where
  "subscribe coll st =
     (if \<not> connected st then st
      else if coll \<notin> set (subscribedCollections st)
      then (case subscribeToCollection coll st of
              None \<Rightarrow> st
            | Some st1 \<Rightarrow> st1\<lparr> subscribedCollections := subscribedCollections st1 @ [coll] \<rparr>)
      else st)"

definition unsubscribe :: "string \<Rightarrow> ws_state \<Rightarrow> ws_state" where
  "unsubscribe coll st =
     st\<lparr> subscribedCollections := removeAll coll (subscribedCollections st) \<rparr>"

text \<open>
  What can happen to a session: the calls of the hook, the events of a socket, and a pending
  timer running its callback. A socket event is delivered only in a ready state that allows
  it: open on a connecting socket, message on an open one, error and close on one that is not
  closed yet. The close event leaves the socket closed.
\<close>

datatype ws_event =
    Connect
  | Disconnect
  | Subscribe string
  | Unsubscribe string
  | SocketOpen nat
  | SocketMessage nat string
  | SocketError nat
  | SocketClose nat
  | TimerFires nat

definition ws_step ::
  "(string \<Rightarrow> exn + json) \<Rightarrow> client \<Rightarrow> ws_state \<Rightarrow> ws_event \<Rightarrow> ws_state" where
  "ws_step JSON_parse c st ev =
     (case ev of
        Connect \<Rightarrow> connectWebSocket st
      | Disconnect \<Rightarrow> disconnect st
      | Subscribe coll \<Rightarrow> subscribe coll st
      | Unsubscribe coll \<Rightarrow> unsubscribe coll st
      | SocketOpen i \<Rightarrow>
          if i < length (sockets st) \<and> sockets st ! i = CONNECTING
          then onopen c (st\<lparr> sockets := (sockets st)[i := OPEN] \<rparr>) else st
      | SocketMessage i text \<Rightarrow>
          if i < length (sockets st) \<and> sockets st ! i = OPEN
          then onmessage JSON_parse text st else st
      | SocketError i \<Rightarrow>
          if i < length (sockets st) \<and> sockets st ! i \<noteq> CLOSED
          then onerror st else st
      | SocketClose i \<Rightarrow>
          if i < length (sockets st) \<and> sockets st ! i \<noteq> CLOSED
          then onclose (st\<lparr> sockets := (sockets st)[i := CLOSED] \<rparr>) else st
      | TimerFires k \<Rightarrow>
          if k < length (timers st)
          then connectWebSocket (st\<lparr> timers := take k (timers st) @ drop (Suc k) (timers st) \<rparr>)
          else st)"

definition ws_run ::
  "(string \<Rightarrow> exn + json) \<Rightarrow> client \<Rightarrow> ws_state \<Rightarrow> ws_event list \<Rightarrow> ws_state" where
  "ws_run JSON_parse c st evs = foldl (ws_step JSON_parse c) st evs"

text \<open>One failed attempt: the socket held closes, and the reconnect timer, if one was
  scheduled, runs.\<close>

definition failed_attempt :: "(string \<Rightarrow> exn + json) \<Rightarrow> client \<Rightarrow> ws_state \<Rightarrow> ws_state" where
  "failed_attempt JSON_parse c st =
     (case ws st of
        None \<Rightarrow> st
      | Some j \<Rightarrow> ws_run JSON_parse c st [SocketClose j, TimerFires 0])"

section \<open>Properties of the object helpers\<close>

lemma obj_get_obj_rest: "obj_get (obj_rest kvs k) k = None"
  by (induction kvs) (auto simp: obj_rest_def)

lemma obj_get_obj_set: "obj_get (obj_set kvs k v) k = Some v"
  by (induction kvs) auto

lemma obj_get_in_set: "obj_get kvs k = Some v \<Longrightarrow> (k, v) \<in> set kvs"
  by (induction kvs) (auto split: if_splits)

lemma set_obj_set: "set (obj_set kvs k v) \<subseteq> insert (k, v) (set kvs)"
  by (induction kvs) (auto split: if_splits)

section \<open>Properties of the instant-search controller\<close>

lemma foldl_filterParts_push:
  "foldl filterParts_push acc es = acc @ map or_group (filter (\<lambda>entry. snd entry \<noteq> []) es)"
  by (induction es arbitrary: acc) (auto simp: filterParts_push_def or_group_def)

lemma build_filter_by_spec: "build_filter_by fs = spec_filter_expression fs"
  by (simp add: build_filter_by_def spec_filter_expression_def foldl_filterParts_push Let_def)

lemma removeFilter_no_empty_group: "obj_get (filters (removeFilter f v st)) f \<noteq> Some []"
  by (simp add: removeFilter_def Let_def obj_get_obj_rest obj_get_obj_set)

lemma category_not_index: "\<not> is_array_index ''category''"
  by (simp add: is_array_index_def is_digit_def)

lemma entries_category: "Object_entries [(''category'', vs)] = [(''category'', vs)]"
  by (simp add: Object_entries_def category_not_index)

lemma filter_by_one_value:
  "build_filter_by [(''category'', [''Electronics''])] = Some ''(category:=Electronics)''"
  by (simp add: build_filter_by_def entries_category filterParts_push_def)

lemma filter_by_two_values:
  "build_filter_by (filters (addFilter ''category'' ''Audio''
       (st\<lparr> filters := [(''category'', [''Electronics''])] \<rparr>)))
   = Some ''(category:=Electronics || category:=Audio)''"
  by (simp add: build_filter_by_def entries_category filterParts_push_def addFilter_def)

lemma filters_all_removed:
  "filters (removeFilter ''category'' ''Audio'' (removeFilter ''category'' ''Electronics''
       (st\<lparr> filters := [(''category'', [''Electronics'', ''Audio''])] \<rparr>))) = []"
  by (simp add: removeFilter_def obj_rest_def)

lemma filter_by_no_filters: "build_filter_by [] = None"
  by (simp add: build_filter_by_def Object_entries_def)

text \<open>
  Claim C8. The filter expression that \<open>performSearch\<close> compiles is the one the specification
  describes: one OR-group \<open>(field:=v1 || field:=v2 ...)\<close> per field with a non-empty value
  list, in the order of \<open>Object.entries\<close>, the groups joined with \<open>&&\<close>, and no expression
  when there is no group. An empty query text is sent as \<open>*\<close>. After \<open>removeFilter\<close> the field
  never maps to an empty list: its key is gone when no value is left. The scenario of the
  specification: \<open>{category: [Electronics]}\<close> with the query \<open>laptop\<close> gives
  \<open>(category:=Electronics)\<close> and the query \<open>laptop\<close>; adding \<open>Audio\<close> gives
  \<open>(category:=Electronics || category:=Audio)\<close>; removing both values leaves no key and no
  filter expression.
\<close>

theorem filter_compilation:
  "filter_by (build_searchParams opts fs sb searchQuery pg) = spec_filter_expression fs
   \<and> q (build_searchParams opts fs sb searchQuery pg) = (if searchQuery = [] then ''*'' else searchQuery)
   \<and> obj_get (filters (removeFilter field v st)) field \<noteq> Some []
   \<and> filter_by (build_searchParams opts [(''category'', [''Electronics''])] sb ''laptop'' pg)
       = Some ''(category:=Electronics)''
   \<and> q (build_searchParams opts [(''category'', [''Electronics''])] sb ''laptop'' pg) = ''laptop''
   \<and> filter_by (build_searchParams opts
         (filters (addFilter ''category'' ''Audio'' (st\<lparr> filters := [(''category'', [''Electronics''])] \<rparr>)))
         sb ''laptop'' pg)
       = Some ''(category:=Electronics || category:=Audio)''
   \<and> filters (removeFilter ''category'' ''Audio'' (removeFilter ''category'' ''Electronics''
         (st\<lparr> filters := [(''category'', [''Electronics'', ''Audio''])] \<rparr>))) = []
   \<and> filter_by (build_searchParams opts [] sb ''laptop'' pg) = None
   \<and> q (build_searchParams opts fs sb [] pg) = ''*''"
  by (simp add: build_searchParams_def build_filter_by_spec [symmetric] removeFilter_no_empty_group
      filter_by_one_value filter_by_two_values filters_all_removed filter_by_no_filters)

text \<open>The compilation at a state with two selected fields and one field with no value.\<close>

theorem filter_compilation_witness:
  "filter_by (build_searchParams
      \<lparr> opt_collection = ''products'', searchFields = [''name'', ''description''], facetFields = None,
        resultsPerPage = 10, defaultFilters = [], defaultSortBy = None,
        has_onSearch = False, has_onError = False \<rparr>
      [(''category'', [''Electronics'', ''Audio'']), (''color'', []), (''brand'', [''Acme''])]
      None [] 1)
   = Some ''(category:=Electronics || category:=Audio) && (brand:=Acme)''
   \<and> q (build_searchParams
      \<lparr> opt_collection = ''products'', searchFields = [''name'', ''description''], facetFields = None,
        resultsPerPage = 10, defaultFilters = [], defaultSortBy = None,
        has_onSearch = False, has_onError = False \<rparr>
      [(''category'', [''Electronics'', ''Audio'']), (''color'', []), (''brand'', [''Acme''])]
      None [] 1) = ''*''"
  using filter_compilation [of
      "\<lparr> opt_collection = ''products'', searchFields = [''name'', ''description''], facetFields = None,
        resultsPerPage = 10, defaultFilters = [], defaultSortBy = None,
        has_onSearch = False, has_onError = False \<rparr>"
      "[(''category'', [''Electronics'', ''Audio'']), (''color'', []), (''brand'', [''Acme''])]"
      None "[]" 1]
  by (simp add: spec_filter_expression_def Object_entries_def is_array_index_def is_digit_def or_group_def)

lemma addFilter_present:
  "obj_get (filters st) field = Some vs \<Longrightarrow> v \<in> set vs \<Longrightarrow> addFilter field v st = st\<lparr> cur_page := 1 \<rparr>"
  by (simp add: addFilter_def)

lemma addFilter_twice:
  "addFilter field v (addFilter field v st) = addFilter field v st"
  by (cases "obj_get (filters st) field") (auto simp: addFilter_def Let_def obj_get_obj_set)

lemma addFilter_distinct:
  assumes "\<forall>e \<in> set (filters st). distinct (snd e)"
  shows "\<forall>e \<in> set (filters (addFilter field v st)). distinct (snd e)"
proof (cases "obj_get (filters st) field")
  case None
  then show ?thesis
    using assms set_obj_set [of "filters st" field "[v]"]
    by (auto simp: addFilter_def Let_def)
next
  case (Some vs)
  then have "distinct vs"
    using assms obj_get_in_set [of "filters st" field vs] by auto
  then show ?thesis
    using assms Some set_obj_set [of "filters st" field "vs @ [v]"]
    by (auto simp: addFilter_def Let_def)
qed

text \<open>
  Claim C9. \<open>addFilter\<close> with a value that is already in the list of the field leaves the
  filters as they are and sets the page to 1; adding the same value twice is the same as
  adding it once; and value lists without duplicates stay without duplicates.
\<close>

theorem addFilter_idempotent:
  "(obj_get (filters st) field = Some vs \<and> v \<in> set vs \<longrightarrow>
      filters (addFilter field v st) = filters st \<and> addFilter field v st = st\<lparr> cur_page := 1 \<rparr>)
   \<and> addFilter field v (addFilter field v st) = addFilter field v st
   \<and> cur_page (addFilter field v st) = 1
   \<and> ((\<forall>e \<in> set (filters st). distinct (snd e)) \<longrightarrow>
       (\<forall>e \<in> set (filters (addFilter field v st)). distinct (snd e)))"
proof -
  have "cur_page (addFilter field v st) = 1"
    by (simp add: addFilter_def Let_def)
  then show ?thesis
    using addFilter_present [of st field vs v] addFilter_twice [of field v st]
      addFilter_distinct [of st field v]
    by auto
qed

text \<open>Adding \<open>Audio\<close> to a category that holds it, on page 3: only the page changes.\<close>

theorem addFilter_idempotent_witness:
  "addFilter ''category'' ''Audio''
     (initial_hook \<lparr> opt_collection = ''products'', searchFields = [''name''], facetFields = None,
        resultsPerPage = 10, defaultFilters = [(''category'', [''Electronics'', ''Audio''])],
        defaultSortBy = None, has_onSearch = False, has_onError = False \<rparr> \<lparr> cur_page := 3 \<rparr>)
   = initial_hook \<lparr> opt_collection = ''products'', searchFields = [''name''], facetFields = None,
        resultsPerPage = 10, defaultFilters = [(''category'', [''Electronics'', ''Audio''])],
        defaultSortBy = None, has_onSearch = False, has_onError = False \<rparr>"
  using addFilter_idempotent [of
     "initial_hook \<lparr> opt_collection = ''products'', searchFields = [''name''], facetFields = None,
        resultsPerPage = 10, defaultFilters = [(''category'', [''Electronics'', ''Audio''])],
        defaultSortBy = None, has_onSearch = False, has_onError = False \<rparr> \<lparr> cur_page := 3 \<rparr>"
     "''category''" "[''Electronics'', ''Audio'']" "''Audio''"]
  by (simp add: initial_hook_def)

lemma settle_applies_result:
  "c \<in> set (inflight st) \<Longrightarrow> call_id c = cid \<Longrightarrow>
   results (performSearch_settle opts cid (Inr r) st) = Some r"
proof -
  assume "c \<in> set (inflight st)" "call_id c = cid"
  then have "filter (\<lambda>c. call_id c = cid) (inflight st) \<noteq> []"
    by (auto simp: filter_empty_conv)
  then obtain c' cs where "filter (\<lambda>c. call_id c = cid) (inflight st) = c' # cs"
    by (cases "filter (\<lambda>c. call_id c = cid) (inflight st)") auto
  then show ?thesis
    by (simp add: performSearch_settle_def Let_def)
qed

lemma begin_keeps_inflight:
  "set (inflight st) \<subseteq> set (inflight (performSearch_begin opts searchQuery currentPage st))"
  by (auto simp: performSearch_begin_def Let_def split: option.splits)

text \<open>
  Claim C1. Two overlapping executions on one controller: \<open>performSearch\<close> for \<open>a\<close> starts,
  \<open>performSearch\<close> for \<open>b\<close> starts and calls \<open>abort()\<close> on the first controller, yet both calls
  stay in flight; the newer call resolves, then the older one resolves, and the older result
  is what \<open>results\<close> holds in the end. In general, a call in flight is still in flight after a
  newer \<open>performSearch\<close> has begun, and its result is applied when it resolves.
\<close>

theorem performSearch_stale_result_applied:
  "(let s0 = initial_hook opts;
        s1 = performSearch_begin opts ''a'' 1 s0;
        s2 = performSearch_begin opts ''b'' 1 s1;
        s3 = performSearch_settle opts 1 (Inr newer) s2;
        s4 = performSearch_settle opts 0 (Inr older) s3
    in aborted s2 = [0] \<and> map call_id (inflight s2) = [0, 1]
       \<and> results s3 = Some newer \<and> results s4 = Some older)
   \<and> (c \<in> set (inflight st) \<longrightarrow>
        c \<in> set (inflight (performSearch_begin opts searchQuery currentPage st))
        \<and> results (performSearch_settle opts (call_id c) (Inr r)
             (performSearch_begin opts searchQuery currentPage st)) = Some r)"
proof -
  have "(let s0 = initial_hook opts;
        s1 = performSearch_begin opts ''a'' 1 s0;
        s2 = performSearch_begin opts ''b'' 1 s1;
        s3 = performSearch_settle opts 1 (Inr newer) s2;
        s4 = performSearch_settle opts 0 (Inr older) s3
    in aborted s2 = [0] \<and> map call_id (inflight s2) = [0, 1]
       \<and> results s3 = Some newer \<and> results s4 = Some older)"
    by (simp add: initial_hook_def performSearch_begin_def performSearch_settle_def Let_def)
  then show ?thesis
    using begin_keeps_inflight [of st opts searchQuery currentPage]
      settle_applies_result [of c "performSearch_begin opts searchQuery currentPage st" "call_id c" opts r]
    by blast
qed

text \<open>The older of two overlapping searches resolves last, with 7 documents found.\<close>

theorem performSearch_stale_result_applied_witness:
  "results (performSearch_settle
      \<lparr> opt_collection = ''products'', searchFields = [''name''], facetFields = None,
        resultsPerPage = 10, defaultFilters = [], defaultSortBy = None,
        has_onSearch = False, has_onError = False \<rparr>
      0 (Inr (JObj [(''found'', JNum 7)]))
      (performSearch_begin
        \<lparr> opt_collection = ''products'', searchFields = [''name''], facetFields = None,
          resultsPerPage = 10, defaultFilters = [], defaultSortBy = None,
          has_onSearch = False, has_onError = False \<rparr>
        ''b'' 1
        (performSearch_begin
          \<lparr> opt_collection = ''products'', searchFields = [''name''], facetFields = None,
            resultsPerPage = 10, defaultFilters = [], defaultSortBy = None,
            has_onSearch = False, has_onError = False \<rparr>
          ''a'' 1
          (initial_hook
            \<lparr> opt_collection = ''products'', searchFields = [''name''], facetFields = None,
              resultsPerPage = 10, defaultFilters = [], defaultSortBy = None,
              has_onSearch = False, has_onError = False \<rparr>))))
   = Some (JObj [(''found'', JNum 7)])"
  using performSearch_stale_result_applied [where
      opts = "\<lparr> opt_collection = ''products'', searchFields = [''name''], facetFields = None,
        resultsPerPage = 10, defaultFilters = [], defaultSortBy = None,
        has_onSearch = False, has_onError = False \<rparr>"
      and st = "performSearch_begin
          \<lparr> opt_collection = ''products'', searchFields = [''name''], facetFields = None,
            resultsPerPage = 10, defaultFilters = [], defaultSortBy = None,
            has_onSearch = False, has_onError = False \<rparr>
          ''a'' 1
          (initial_hook
            \<lparr> opt_collection = ''products'', searchFields = [''name''], facetFields = None,
              resultsPerPage = 10, defaultFilters = [], defaultSortBy = None,
              has_onSearch = False, has_onError = False \<rparr>)"
      and c = "\<lparr> call_id = 0,
          call_params = build_searchParams
            \<lparr> opt_collection = ''products'', searchFields = [''name''], facetFields = None,
              resultsPerPage = 10, defaultFilters = [], defaultSortBy = None,
              has_onSearch = False, has_onError = False \<rparr> [] None ''a'' 1,
          call_query = ''a'' \<rparr>"
      and searchQuery = "''b''" and currentPage = 1
      and r = "JObj [(''found'', JNum 7)]"]
  by (simp add: initial_hook_def performSearch_begin_def Let_def)

section \<open>Properties of the request executor\<close>

lemma request_timer_cleared: "\<not> timer_armed (snd (request c path options tr))"
  by (auto simp: request_def Let_def await_fetch_def timer_fires_def request_catch_def
      clearTimeout_def split: transport.splits fetch_outcome.splits sum.splits prod.splits if_splits)

lemma request_timer_delay: "timer_delay (snd (request c path options tr)) = timeout c"
  by (auto simp: request_def Let_def await_fetch_def timer_fires_def request_catch_def
      clearTimeout_def split: transport.splits fetch_outcome.splits sum.splits prod.splits if_splits)


lemma request_no_response:
  "tr = Pending \<or> (\<exists>t out. tr = Settles t out \<and> timeout c < t) \<Longrightarrow>
   fst (request c path options tr) = Inl (Normalized timeout_error)
   \<and> signal_aborted (snd (request c path options tr))"
  by (auto simp: request_def Let_def await_fetch_def timer_fires_def request_catch_def
      clearTimeout_def thrown_name_def AbortError_def)







text \<open>
  Claim C4. After \<open>request\<close> has settled, the timer it set with the client's timeout is not
  pending, whatever the transport did. When the transport leaves the \<open>fetch\<close> pending, or
  settles it later than the timeout, the call fails with the error of code \<open>TIMEOUT\<close>, and the
  controller whose signal the \<open>fetch\<close> holds has been aborted.
\<close>

theorem request_timeout:
  "\<not> timer_armed (snd (request c path options tr))
   \<and> timer_delay (snd (request c path options tr)) = timeout c
   \<and> (tr = Pending \<or> (\<exists>t out. tr = Settles t out \<and> timeout c < t) \<longrightarrow>
        fst (request c path options tr) = Inl (Normalized timeout_error)
        \<and> code timeout_error = Some (JStr ''TIMEOUT'')
        \<and> signal_aborted (snd (request c path options tr)))"
proof -
  have "code timeout_error = Some (JStr ''TIMEOUT'')"
    by (simp add: timeout_error_def)
  then show ?thesis
    using request_timer_cleared [of c path options tr] request_timer_delay [of c path options tr]
      request_no_response [of tr c path options]
    by blast
qed

text \<open>A client with a timeout of 5000 ms and a response after 5001 ms.\<close>

theorem request_timeout_witness:
  "fst (request (new_client \<lparr> cfg_apiKey = ''key'', cfg_endpoint = None, cfg_tenant = None, cfg_timeout = Some 5000 \<rparr>)
         ''/api/v1/search'' \<lparr> req_method = Some ''POST'', headers = [], body = (None :: unit wire option) \<rparr>
         (Settles 5001 (Resolves \<lparr> ok = True, status = 200, statusText = ''OK'', json_body = Inr JNull \<rparr>)))
     = Inl (Normalized \<lparr> message = JStr ''Request timeout'', code = Some (JStr ''TIMEOUT''),
                          statusCode = None, details = None \<rparr>)
   \<and> \<not> timer_armed (snd (request (new_client \<lparr> cfg_apiKey = ''key'', cfg_endpoint = None, cfg_tenant = None, cfg_timeout = Some 5000 \<rparr>)
         ''/api/v1/search'' \<lparr> req_method = Some ''POST'', headers = [], body = (None :: unit wire option) \<rparr>
         (Settles 5001 (Resolves \<lparr> ok = True, status = 200, statusText = ''OK'', json_body = Inr JNull \<rparr>))))"
  using request_timeout [of "new_client \<lparr> cfg_apiKey = ''key'', cfg_endpoint = None, cfg_tenant = None, cfg_timeout = Some 5000 \<rparr>"
         "''/api/v1/search''" "\<lparr> req_method = Some ''POST'', headers = [], body = (None :: unit wire option) \<rparr>"
         "Settles 5001 (Resolves \<lparr> ok = True, status = 200, statusText = ''OK'', json_body = Inr JNull \<rparr>)"]
  by (simp add: new_client_def timeout_error_def)




section \<open>Properties of the streaming parser and of conversational search\<close>

text \<open>
  Claim C2. The same record delivered in one chunk and in two. In one chunk the token is
  appended to the answer. Split inside the prefix \<open>data: \<close>, neither piece starts with the
  prefix and the token is lost: the answer is empty. Split inside the JSON text, the first
  piece is handed to \<open>JSON.parse\<close> as it stands, and the SyntaxError it throws rejects the call.
\<close>

theorem stream_chunk_split_changes_answer:
  \<open>answer_of (streamConversationalSearch P opts
       (Body [''da'', ''ta: {"type":"token","content":"hi"}'' @ [CHR 0x0A]] Done)) = Some []
   \<and> (P ''{"type":"token","content":"hi"}''
         = Inr (JObj [(''type'', JStr ''token''), (''content'', JStr ''hi'')]) \<longrightarrow>
       answer_of (streamConversationalSearch P opts
         (Body [''data: {"type":"token","content":"hi"}'' @ [CHR 0x0A]] Done)) = Some ''hi'')
   \<and> (P ''{"type":"token",'' = Inl e \<longrightarrow>
       fst (streamConversationalSearch P opts
         (Body [''data: {"type":"token",'', ''"content":"hi"}'' @ [CHR 0x0A]] Done)) = Inl (Raw e))\<close>
  by (simp add: answer_of_def streamConversationalSearch_def stream_finish_def stream_catch_def
      process_line_def or_default_def String_opt_def)

text \<open>The three runs with a parser that knows the whole record and rejects everything else.\<close>

theorem stream_chunk_split_changes_answer_witness:
  \<open>answer_of (streamConversationalSearch
       (\<lambda>s. if s = ''{"type":"token","content":"hi"}''
            then Inr (JObj [(''type'', JStr ''token''), (''content'', JStr ''hi'')])
            else Inl \<lparr> name = ''SyntaxError'', msg = ''Unexpected end of JSON input'' \<rparr>)
       \<lparr> onChunk = True, onComplete = True, onError = True \<rparr>
       (Body [''data: {"type":"token","content":"hi"}'' @ [CHR 0x0A]] Done)) = Some ''hi''
   \<and> answer_of (streamConversationalSearch
       (\<lambda>s. if s = ''{"type":"token","content":"hi"}''
            then Inr (JObj [(''type'', JStr ''token''), (''content'', JStr ''hi'')])
            else Inl \<lparr> name = ''SyntaxError'', msg = ''Unexpected end of JSON input'' \<rparr>)
       \<lparr> onChunk = True, onComplete = True, onError = True \<rparr>
       (Body [''da'', ''ta: {"type":"token","content":"hi"}'' @ [CHR 0x0A]] Done)) = Some []
   \<and> fst (streamConversationalSearch
       (\<lambda>s. if s = ''{"type":"token","content":"hi"}''
            then Inr (JObj [(''type'', JStr ''token''), (''content'', JStr ''hi'')])
            else Inl \<lparr> name = ''SyntaxError'', msg = ''Unexpected end of JSON input'' \<rparr>)
       \<lparr> onChunk = True, onComplete = True, onError = True \<rparr>
       (Body [''data: {"type":"token",'', ''"content":"hi"}'' @ [CHR 0x0A]] Done))
     = Inl (Raw \<lparr> name = ''SyntaxError'', msg = ''Unexpected end of JSON input'' \<rparr>)\<close>
  using stream_chunk_split_changes_answer [of
       \<open>\<lambda>s. if s = ''{"type":"token","content":"hi"}''
            then Inr (JObj [(''type'', JStr ''token''), (''content'', JStr ''hi'')])
            else Inl \<lparr> name = ''SyntaxError'', msg = ''Unexpected end of JSON input'' \<rparr>\<close>
       \<open>\<lparr> onChunk = True, onComplete = True, onError = True \<rparr>\<close>
       \<open>\<lparr> name = ''SyntaxError'', msg = ''Unexpected end of JSON input'' \<rparr>\<close>]
  by simp




section \<open>Properties of the WebSocket session manager\<close>

lemma onclose_schedules:
  "wsReconnectAttempts st < maxReconnectAttempts st \<Longrightarrow>
   onclose st = st\<lparr> wsReconnectAttempts := wsReconnectAttempts st + 1,
                   timers := timers st @ [min (1000 * 2 ^ (wsReconnectAttempts st + 1)) 30000],
                   setTimeout_log := setTimeout_log st @ [min (1000 * 2 ^ (wsReconnectAttempts st + 1)) 30000] \<rparr>"
  by (simp add: onclose_def Let_def)

lemma onclose_exhausted:
  "\<not> wsReconnectAttempts st < maxReconnectAttempts st \<Longrightarrow> onclose st = st"
  by (simp add: onclose_def)

lemma failed_attempt_retry:
  assumes "wsReconnectAttempts st < maxReconnectAttempts st" "ws st = Some j"
    "j < length (sockets st)" "sockets st ! j \<noteq> CLOSED" "timers st = []"
  shows "failed_attempt P c st =
     st\<lparr> sockets := (sockets st)[j := CLOSED] @ [CONNECTING],
         wsReconnectAttempts := wsReconnectAttempts st + 1,
         timers := [],
         setTimeout_log := setTimeout_log st @ [min (1000 * 2 ^ (wsReconnectAttempts st + 1)) 30000],
         ws := Some (length (sockets st)) \<rparr>"
  using assms
  by (simp add: failed_attempt_def ws_run_def ws_step_def onclose_def connectWebSocket_def Let_def)

lemma failed_attempt_exhausted:
  assumes "\<not> wsReconnectAttempts st < maxReconnectAttempts st" "timers st = []"
  shows "wsReconnectAttempts (failed_attempt P c st) = wsReconnectAttempts st
    \<and> maxReconnectAttempts (failed_attempt P c st) = maxReconnectAttempts st
    \<and> timers (failed_attempt P c st) = []
    \<and> ws (failed_attempt P c st) = ws st
    \<and> setTimeout_log (failed_attempt P c st) = setTimeout_log st"
  using assms
  by (simp add: failed_attempt_def ws_run_def ws_step_def onclose_def split: option.splits)

lemma backoff_log:
  "maxReconnectAttempts st = 5 \<Longrightarrow> wsReconnectAttempts st = k \<Longrightarrow> k \<le> 5 \<Longrightarrow> timers st = [] \<Longrightarrow>
   (k < 5 \<longrightarrow> (\<exists>j. ws st = Some j \<and> j < length (sockets st) \<and> sockets st ! j \<noteq> CLOSED)) \<Longrightarrow>
   setTimeout_log ((failed_attempt P c ^^ n) st) =
     setTimeout_log st @ take n (map (\<lambda>a. min (1000 * 2 ^ a) 30000) [Suc k ..< 6])"
proof (induction n arbitrary: st k)
  case 0
  then show ?case by simp
next
  case (Suc n)
  let ?st' = "failed_attempt P c st"
  show ?case
  proof (cases "k < 5")
    case True
    with Suc.prems obtain j where j: "ws st = Some j" "j < length (sockets st)" "sockets st ! j \<noteq> CLOSED"
      by blast
    have lt: "wsReconnectAttempts st < maxReconnectAttempts st"
      using True Suc.prems by simp
    note eq = failed_attempt_retry [OF lt j Suc.prems(4), of P c]
    have a: "maxReconnectAttempts ?st' = 5" "wsReconnectAttempts ?st' = Suc k" "timers ?st' = []"
      "setTimeout_log ?st' = setTimeout_log st @ [min (1000 * 2 ^ Suc k) 30000]"
      using Suc.prems by (simp_all add: eq)
    have b: "Suc k < 5 \<longrightarrow> (\<exists>j. ws ?st' = Some j \<and> j < length (sockets ?st') \<and> sockets ?st' ! j \<noteq> CLOSED)"
      by (simp add: eq nth_append)
    have "Suc k \<le> 5" using True by simp
    from Suc.IH [OF a(1) a(2) this a(3) b]
    have "setTimeout_log ((failed_attempt P c ^^ n) ?st') =
        setTimeout_log st @ [min (1000 * 2 ^ Suc k) 30000] @
          take n (map (\<lambda>a. min (1000 * 2 ^ a) 30000) [Suc (Suc k) ..< 6])"
      by (simp add: a(4))
    moreover have "[Suc k ..< 6] = Suc k # [Suc (Suc k) ..< 6]"
      using True by (simp add: upt_conv_Cons)
    ultimately show ?thesis
      by (simp add: funpow_swap1)
  next
    case False
    with Suc.prems have k: "k = 5" by simp
    have ex: "\<not> wsReconnectAttempts st < maxReconnectAttempts st"
      using k Suc.prems by simp
    note f = failed_attempt_exhausted [OF ex Suc.prems(4), of P c]
    have a: "maxReconnectAttempts ?st' = 5" "wsReconnectAttempts ?st' = k" "timers ?st' = []"
      using f Suc.prems by simp_all
    have b: "k < 5 \<longrightarrow> (\<exists>j. ws ?st' = Some j \<and> j < length (sockets ?st') \<and> sockets ?st' ! j \<noteq> CLOSED)"
      using k by simp
    from Suc.IH [OF a(1) a(2) Suc.prems(3) a(3) b]
    show ?thesis using f k by (simp add: funpow_swap1)
  qed
qed

lemma five_delays: "map (\<lambda>a. min (1000 * 2 ^ a) 30000) [Suc 0 ..< 6] = [2000, 4000, 8000, 16000, 30000::nat]"
  by (simp add: upt_conv_Cons)

lemma onopen_connected: "connected (onopen c st) = connected st"
  by (simp add: onopen_def ws_send_def Let_def split: option.splits)

lemma onopen_attempts: "wsReconnectAttempts (onopen c st) = 0"
  by (simp add: onopen_def ws_send_def Let_def split: option.splits)

lemma onmessage_attempts: "wsReconnectAttempts (onmessage P text st) = wsReconnectAttempts st"
  by (simp add: onmessage_def hook_onMessage_def split: sum.splits)

lemma onmessage_connected_frame:
  "P text = Inr data \<Longrightarrow> get_prop data ''type'' = Some (JStr ''connected'') \<Longrightarrow>
   connected (onmessage P text st)"
  by (cases data) (simp_all add: onmessage_def hook_onMessage_def)

lemma onmessage_other_frame:
  "\<not> connected st \<Longrightarrow> connected (onmessage P text st) \<Longrightarrow>
   \<exists>data. P text = Inr data \<and> get_prop data ''type'' = Some (JStr ''connected'')"
  by (auto simp: onmessage_def hook_onMessage_def split: sum.splits if_splits)

lemma step_connected_only_by_frame:
  "\<not> connected st \<Longrightarrow> connected (ws_step P c st ev) \<Longrightarrow>
   \<exists>i text data. ev = SocketMessage i text \<and> P text = Inr data
      \<and> get_prop data ''type'' = Some (JStr ''connected'')"
proof (cases ev)
  case (SocketMessage i frame)
  assume "\<not> connected st" "connected (ws_step P c st ev)"
  then show ?thesis
    using onmessage_other_frame [of st P frame]
    by (auto simp: SocketMessage ws_step_def split: if_splits)
next
  case (SocketOpen i)
  assume "\<not> connected st" "connected (ws_step P c st ev)"
  then show ?thesis
    by (simp add: SocketOpen ws_step_def onopen_connected split: if_splits)
qed (auto simp: ws_step_def connectWebSocket_def disconnect_def subscribe_def unsubscribe_def
      onerror_def onclose_def Let_def split: if_splits option.splits)

lemma run_connected_only_by_frame:
  "\<not> connected st \<Longrightarrow> connected (ws_run P c st evs) \<Longrightarrow>
   \<exists>i fr d. SocketMessage i fr \<in> set evs \<and> P fr = Inr d
      \<and> get_prop d ''type'' = Some (JStr ''connected'')"
proof (induction evs arbitrary: st)
  case Nil
  then show ?case by (simp add: ws_run_def)
next
  case (Cons ev evs)
  show ?case
  proof (cases "connected (ws_step P c st ev)")
    case True
    with Cons.prems(1) step_connected_only_by_frame [of st P c ev]
    obtain i fr d where "ev = SocketMessage i fr" "P fr = Inr d"
        "get_prop d ''type'' = Some (JStr ''connected'')"
      by blast
    then show ?thesis by auto
  next
    case False
    moreover have "connected (ws_run P c (ws_step P c st ev) evs)"
      using Cons.prems(2) by (simp add: ws_run_def)
    ultimately obtain i fr d where "SocketMessage i fr \<in> set evs" "P fr = Inr d"
        "get_prop d ''type'' = Some (JStr ''connected'')"
      using Cons.IH by blast
    then show ?thesis by auto
  qed
qed

text \<open>
  Claim C5, as stated, fails: after the handshake of a fresh session, the first unexpected
  close schedules the reconnect after 2000 ms, not 1000 ms.
\<close>

theorem reconnect_first_delay_counterexample:
  "setTimeout_log (ws_run (\<lambda>frame. Inr (JObj [(''type'', JStr ''connected'')]))
      \<lparr> apiKey = ''key'', endpoint = ''https://api.aacsearch.com'', tenant = None,
        timeout = 30000 \<rparr>
      initial_ws [Connect, SocketOpen 0, SocketMessage 0 ''ack'', SocketClose 0]) = [2000]"
  by (simp add: ws_run_def ws_step_def initial_ws_def connectWebSocket_def onopen_def ws_send_def
       onmessage_def hook_onMessage_def onclose_def Let_def)

text \<open>
  Claim C5, amended. An unexpected close with attempts left increments the attempt counter
  and then schedules the reconnect after \<open>min(1000 * 2^attempts, 30000)\<close> ms, read with the
  incremented counter; with no attempt left it changes nothing. From a session with the counter
  at 0 and the cap of 5, the delays of \<open>n\<close> consecutive failed attempts are the first \<open>n\<close> of
  2 s, 4 s, 8 s, 16 s, 30 s: after the fifth, nothing more is scheduled.
\<close>

theorem reconnect_backoff:
  "(wsReconnectAttempts st < maxReconnectAttempts st \<longrightarrow>
      wsReconnectAttempts (onclose st) = wsReconnectAttempts st + 1
      \<and> setTimeout_log (onclose st) =
          setTimeout_log st @ [min (1000 * 2 ^ wsReconnectAttempts (onclose st)) 30000])
   \<and> (\<not> wsReconnectAttempts st < maxReconnectAttempts st \<longrightarrow> onclose st = st)
   \<and> (maxReconnectAttempts st = 5 \<and> wsReconnectAttempts st = 0 \<and> timers st = []
        \<and> ws st = Some j \<and> j < length (sockets st) \<and> sockets st ! j \<noteq> CLOSED \<longrightarrow>
      setTimeout_log ((failed_attempt P c ^^ n) st) =
        setTimeout_log st @ take n [2000, 4000, 8000, 16000, 30000])"
proof -
  have "maxReconnectAttempts st = 5 \<and> wsReconnectAttempts st = 0 \<and> timers st = []
        \<and> ws st = Some j \<and> j < length (sockets st) \<and> sockets st ! j \<noteq> CLOSED \<longrightarrow>
      setTimeout_log ((failed_attempt P c ^^ n) st) =
        setTimeout_log st @ take n [2000, 4000, 8000, 16000, 30000]"
    using backoff_log [where st = st and k = 0 and P = P and c = c and n = n]
    by (auto simp: five_delays)
  moreover have "wsReconnectAttempts st < maxReconnectAttempts st \<longrightarrow>
      wsReconnectAttempts (onclose st) = wsReconnectAttempts st + 1
      \<and> setTimeout_log (onclose st) =
          setTimeout_log st @ [min (1000 * 2 ^ wsReconnectAttempts (onclose st)) 30000]"
    by (simp add: onclose_schedules)
  ultimately show ?thesis
    using onclose_exhausted [of st] by blast
qed

text \<open>Seven consecutive failed attempts after the handshake of a fresh session.\<close>

theorem reconnect_backoff_witness:
  "setTimeout_log
     ((failed_attempt (\<lambda>frame. Inr (JObj [(''type'', JStr ''connected'')]))
         \<lparr> apiKey = ''key'', endpoint = ''https://api.aacsearch.com'', tenant = None,
           timeout = 30000 \<rparr> ^^ 7)
      (ws_run (\<lambda>frame. Inr (JObj [(''type'', JStr ''connected'')]))
         \<lparr> apiKey = ''key'', endpoint = ''https://api.aacsearch.com'', tenant = None,
           timeout = 30000 \<rparr>
         initial_ws [Connect, SocketOpen 0, SocketMessage 0 ''ack'']))
   = [2000, 4000, 8000, 16000, 30000]"
  using reconnect_backoff [where
      st = "ws_run (\<lambda>frame. Inr (JObj [(''type'', JStr ''connected'')]))
         \<lparr> apiKey = ''key'', endpoint = ''https://api.aacsearch.com'', tenant = None,
           timeout = 30000 \<rparr>
         initial_ws [Connect, SocketOpen 0, SocketMessage 0 ''ack'']"
      and j = 0
      and P = "\<lambda>frame. Inr (JObj [(''type'', JStr ''connected'')])"
      and c = "\<lparr> apiKey = ''key'', endpoint = ''https://api.aacsearch.com'', tenant = None,
           timeout = 30000 \<rparr>"
      and n = 7]
  by (simp add: ws_run_def ws_step_def initial_ws_def connectWebSocket_def onopen_def ws_send_def
       onmessage_def hook_onMessage_def)

lemma disconnect_clears: "subscribedCollections (disconnect st) = [] \<and> \<not> connected (disconnect st)"
  by (simp add: disconnect_def)

lemma disconnect_twice: "disconnect (disconnect st) = disconnect st"
  by (simp add: disconnect_def disconnectWebSocket_def split: option.splits)

lemma disconnect_then_close:
  "ws st = Some j \<Longrightarrow> j < length (sockets st) \<Longrightarrow> sockets st ! j \<noteq> CLOSED \<Longrightarrow>
   wsReconnectAttempts st < maxReconnectAttempts st \<Longrightarrow>
   setTimeout_log (ws_run P c st [Disconnect, SocketClose j]) =
     setTimeout_log st @ [min (1000 * 2 ^ (wsReconnectAttempts st + 1)) 30000]"
  by (simp add: ws_run_def ws_step_def disconnect_def disconnectWebSocket_def onclose_def Let_def)

text \<open>
  Claim C6. A caller's \<open>disconnect\<close> on an open session: the close event that \<open>close()\<close>
  brings about runs \<open>onclose\<close>, which schedules a reconnect after 2000 ms; when that timer
  runs, a new socket is opened. In general, \<open>disconnect\<close> on a session that holds a socket not
  yet closed, with attempts left, is followed by a scheduled reconnect when the close event of
  that socket arrives. The other two parts of the claim hold: \<open>disconnect\<close> clears the
  subscriptions, and a second \<open>disconnect\<close> changes nothing.
\<close>

theorem disconnect_schedules_reconnect:
  "(let st = ws_run P c initial_ws [Connect, SocketOpen 0, Disconnect, SocketClose 0, TimerFires 0]
    in setTimeout_log st = [2000] \<and> ws st = Some 1 \<and> sockets st = [CLOSED, CONNECTING])
   \<and> (ws st = Some j \<and> j < length (sockets st) \<and> sockets st ! j \<noteq> CLOSED
        \<and> wsReconnectAttempts st < maxReconnectAttempts st \<longrightarrow>
      setTimeout_log (ws_run P c st [Disconnect, SocketClose j]) =
        setTimeout_log st @ [min (1000 * 2 ^ (wsReconnectAttempts st + 1)) 30000])
   \<and> subscribedCollections (disconnect st) = []
   \<and> disconnect (disconnect st) = disconnect st"
proof -
  have "(let st = ws_run P c initial_ws [Connect, SocketOpen 0, Disconnect, SocketClose 0, TimerFires 0]
    in setTimeout_log st = [2000] \<and> ws st = Some 1 \<and> sockets st = [CLOSED, CONNECTING])"
    by (simp add: ws_run_def ws_step_def initial_ws_def connectWebSocket_def onopen_def ws_send_def
       disconnect_def disconnectWebSocket_def onclose_def Let_def)
  then show ?thesis
    using disconnect_then_close [of st j P c] disconnect_clears [of st] disconnect_twice [of st]
    by blast
qed

text \<open>An authenticated session subscribed to one collection is disconnected by the caller.\<close>

theorem disconnect_schedules_reconnect_witness:
  "setTimeout_log (ws_run (\<lambda>frame. Inr (JObj [(''type'', JStr ''connected'')]))
      \<lparr> apiKey = ''key'', endpoint = ''https://api.aacsearch.com'', tenant = None,
        timeout = 30000 \<rparr>
      (ws_run (\<lambda>frame. Inr (JObj [(''type'', JStr ''connected'')]))
         \<lparr> apiKey = ''key'', endpoint = ''https://api.aacsearch.com'', tenant = None,
           timeout = 30000 \<rparr>
         initial_ws [Connect, SocketOpen 0, SocketMessage 0 ''ack'', Subscribe ''products''])
      [Disconnect, SocketClose 0]) = [2000]"
  using disconnect_schedules_reconnect [where
      st = "ws_run (\<lambda>frame. Inr (JObj [(''type'', JStr ''connected'')]))
         \<lparr> apiKey = ''key'', endpoint = ''https://api.aacsearch.com'', tenant = None,
           timeout = 30000 \<rparr>
         initial_ws [Connect, SocketOpen 0, SocketMessage 0 ''ack'', Subscribe ''products'']"
      and j = 0
      and P = "\<lambda>frame. Inr (JObj [(''type'', JStr ''connected'')])"
      and c = "\<lparr> apiKey = ''key'', endpoint = ''https://api.aacsearch.com'', tenant = None,
           timeout = 30000 \<rparr>"]
  by (simp add: ws_run_def ws_step_def initial_ws_def connectWebSocket_def onopen_def ws_send_def
       onmessage_def hook_onMessage_def subscribe_def subscribeToCollection_def)

text \<open>
  Claim C7, as stated, fails. After one failed attempt the counter is 1; the open event of
  the next socket sets it to 0 while the session is not authenticated. A \<open>connected\<close> frame
  that arrives with the counter at 1 authenticates the session and leaves the counter at 1.
  And after an unexpected close of an authenticated session, which no handler reports to the
  hook, the session is still marked authenticated when the socket of the reconnect opens,
  before any frame has arrived on it.
\<close>

theorem connected_frame_reset_counterexample:
  "wsReconnectAttempts (ws_run (\<lambda>frame. Inr (JObj [(''type'', JStr ''connected'')]))
      \<lparr> apiKey = ''key'', endpoint = ''https://api.aacsearch.com'', tenant = None,
        timeout = 30000 \<rparr>
      initial_ws [Connect, SocketClose 0, TimerFires 0]) = 1
   \<and> wsReconnectAttempts (ws_run (\<lambda>frame. Inr (JObj [(''type'', JStr ''connected'')]))
      \<lparr> apiKey = ''key'', endpoint = ''https://api.aacsearch.com'', tenant = None,
        timeout = 30000 \<rparr>
      initial_ws [Connect, SocketClose 0, TimerFires 0, SocketOpen 1]) = 0
   \<and> \<not> connected (ws_run (\<lambda>frame. Inr (JObj [(''type'', JStr ''connected'')]))
      \<lparr> apiKey = ''key'', endpoint = ''https://api.aacsearch.com'', tenant = None,
        timeout = 30000 \<rparr>
      initial_ws [Connect, SocketClose 0, TimerFires 0, SocketOpen 1])
   \<and> wsReconnectAttempts (ws_run (\<lambda>frame. Inr (JObj [(''type'', JStr ''connected'')]))
      \<lparr> apiKey = ''key'', endpoint = ''https://api.aacsearch.com'', tenant = None,
        timeout = 30000 \<rparr>
      initial_ws [Connect, SocketOpen 0, Connect, SocketClose 1, SocketMessage 0 ''ack'']) = 1
   \<and> connected (ws_run (\<lambda>frame. Inr (JObj [(''type'', JStr ''connected'')]))
      \<lparr> apiKey = ''key'', endpoint = ''https://api.aacsearch.com'', tenant = None,
        timeout = 30000 \<rparr>
      initial_ws [Connect, SocketOpen 0, Connect, SocketClose 1, SocketMessage 0 ''ack''])
   \<and> connected (ws_run (\<lambda>frame. Inr (JObj [(''type'', JStr ''connected'')]))
      \<lparr> apiKey = ''key'', endpoint = ''https://api.aacsearch.com'', tenant = None,
        timeout = 30000 \<rparr>
      initial_ws [Connect, SocketOpen 0, SocketMessage 0 ''ack'', SocketClose 0, TimerFires 0,
                  SocketOpen 1])
   \<and> sockets (ws_run (\<lambda>frame. Inr (JObj [(''type'', JStr ''connected'')]))
      \<lparr> apiKey = ''key'', endpoint = ''https://api.aacsearch.com'', tenant = None,
        timeout = 30000 \<rparr>
      initial_ws [Connect, SocketOpen 0, SocketMessage 0 ''ack'', SocketClose 0, TimerFires 0,
                  SocketOpen 1]) = [CLOSED, OPEN]
   \<and> ws (ws_run (\<lambda>frame. Inr (JObj [(''type'', JStr ''connected'')]))
      \<lparr> apiKey = ''key'', endpoint = ''https://api.aacsearch.com'', tenant = None,
        timeout = 30000 \<rparr>
      initial_ws [Connect, SocketOpen 0, SocketMessage 0 ''ack'', SocketClose 0, TimerFires 0,
                  SocketOpen 1]) = Some 1"
  by (simp add: ws_run_def ws_step_def initial_ws_def connectWebSocket_def onopen_def ws_send_def
       onmessage_def hook_onMessage_def onclose_def Let_def)

text \<open>
  Claim C7, amended. The open event never marks the session authenticated: it leaves
  \<open>connected\<close> as it was, so a session that is not marked authenticated before the open is not
  marked authenticated after it, and it sets the attempt counter to 0. A frame, the
  \<open>connected\<close> frame included, leaves the counter as it was. A frame that parses to an object
  of type \<open>connected\<close> makes the session authenticated. No other call or event turns
  \<open>connected\<close> from false to true, and no sequence of calls and events does it without such
  a frame among them.
\<close>

theorem authenticated_only_by_connected_frame:
  "connected (onopen c st) = connected st
   \<and> wsReconnectAttempts (onopen c st) = 0
   \<and> wsReconnectAttempts (onmessage P frame st) = wsReconnectAttempts st
   \<and> (P frame = Inr data \<and> get_prop data ''type'' = Some (JStr ''connected'') \<longrightarrow>
        connected (onmessage P frame st))
   \<and> (\<not> connected st \<and> connected (ws_step P c st ev) \<longrightarrow>
        (\<exists>i fr d. ev = SocketMessage i fr \<and> P fr = Inr d
            \<and> get_prop d ''type'' = Some (JStr ''connected'')))
   \<and> (\<not> connected st \<and> connected (ws_run P c st evs) \<longrightarrow>
        (\<exists>i fr d. SocketMessage i fr \<in> set evs \<and> P fr = Inr d
            \<and> get_prop d ''type'' = Some (JStr ''connected'')))"
  using onopen_connected [of c st] onopen_attempts [of c st] onmessage_attempts [of P frame st]
    onmessage_connected_frame [of P frame data st] step_connected_only_by_frame [of st P c ev]
    run_connected_only_by_frame [of st P c evs]
  by blast

text \<open>
  A first attempt, and a reconnect after an error and a close: in both the session is not
  authenticated after the open event and is authenticated after the acknowledgment.
\<close>

theorem authenticated_only_by_connected_frame_witness:
  "\<not> connected (ws_run (\<lambda>frame. Inr (JObj [(''type'', JStr ''connected'')]))
        \<lparr> apiKey = ''key'', endpoint = ''https://api.aacsearch.com'', tenant = None,
          timeout = 30000 \<rparr>
        initial_ws [Connect, SocketOpen 0])
   \<and> connected (ws_run (\<lambda>frame. Inr (JObj [(''type'', JStr ''connected'')]))
        \<lparr> apiKey = ''key'', endpoint = ''https://api.aacsearch.com'', tenant = None,
          timeout = 30000 \<rparr>
        initial_ws [Connect, SocketOpen 0, SocketMessage 0 ''ack''])
   \<and> \<not> connected (ws_run (\<lambda>frame. Inr (JObj [(''type'', JStr ''connected'')]))
        \<lparr> apiKey = ''key'', endpoint = ''https://api.aacsearch.com'', tenant = None,
          timeout = 30000 \<rparr>
        initial_ws [Connect, SocketOpen 0, SocketMessage 0 ''ack'', SocketError 0, SocketClose 0,
                    TimerFires 0, SocketOpen 1])
   \<and> wsReconnectAttempts (ws_run (\<lambda>frame. Inr (JObj [(''type'', JStr ''connected'')]))
        \<lparr> apiKey = ''key'', endpoint = ''https://api.aacsearch.com'', tenant = None,
          timeout = 30000 \<rparr>
        initial_ws [Connect, SocketOpen 0, SocketMessage 0 ''ack'', SocketError 0, SocketClose 0,
                    TimerFires 0, SocketOpen 1]) = 0
   \<and> connected (ws_run (\<lambda>frame. Inr (JObj [(''type'', JStr ''connected'')]))
        \<lparr> apiKey = ''key'', endpoint = ''https://api.aacsearch.com'', tenant = None,
          timeout = 30000 \<rparr>
        initial_ws [Connect, SocketOpen 0, SocketMessage 0 ''ack'', SocketError 0, SocketClose 0,
                    TimerFires 0, SocketOpen 1, SocketMessage 1 ''ack''])"
  using authenticated_only_by_connected_frame [where
      c = "\<lparr> apiKey = ''key'', endpoint = ''https://api.aacsearch.com'', tenant = None,
          timeout = 30000 \<rparr>"
      and st = "ws_run (\<lambda>frame. Inr (JObj [(''type'', JStr ''connected'')]))
        \<lparr> apiKey = ''key'', endpoint = ''https://api.aacsearch.com'', tenant = None,
          timeout = 30000 \<rparr>
        initial_ws [Connect, SocketOpen 0, SocketMessage 0 ''ack'', SocketError 0, SocketClose 0,
                    TimerFires 0]"
      and P = "\<lambda>frame. Inr (JObj [(''type'', JStr ''connected'')])"
      and frame = "''ack''"
      and data = "JObj [(''type'', JStr ''connected'')]"
      and ev = "SocketOpen 1"
      and evs = "[SocketOpen 1, SocketMessage 1 ''ack'']"]
  by (simp add: ws_run_def ws_step_def initial_ws_def connectWebSocket_def onopen_def ws_send_def
       onmessage_def hook_onMessage_def onerror_def onclose_def Let_def)

end
